theory Spec2Isabelle
  imports Main "HOL-Library.Sublist"
begin

section \<open>The embedding facade of lib.go\<close>

text \<open>
  The facade wires a configuration, a storage connection, a backend application and a
  terminal UI program together. Its collaborators (\<^verbatim>\<open>db.Connect\<close>, \<^verbatim>\<open>app.New\<close>,
  \<^verbatim>\<open>tea.NewProgram\<close>, \<^verbatim>\<open>program.Run\<close>, the process environment, the terminal check) are
  not part of the file: what they answer is a field of the record \<open>world\<close>, and every call
  to one of them, every write to \<^verbatim>\<open>os.Stderr\<close> and every log record is an entry of the
  trace a function returns with its outcome. A collaborator is taken to return when it
  is called; the panics of the model are those of lib.go's own statements. The code
  discards the result of its two writes to \<^verbatim>\<open>os.Stderr\<close>, so a write is the event that
  the bytes were sent.
\<close>

subsection \<open>Data\<close>

type_synonym error = string
  \<comment> \<open>a non-nil Go \<^verbatim>\<open>error\<close>, identified by its message; \<^verbatim>\<open>nil\<close> is \<open>None\<close> of \<open>error option\<close>\<close>

type_synonym conn = nat
  \<comment> \<open>a \<^verbatim>\<open>*sql.DB\<close> handle\<close>

type_synonym app = nat
  \<comment> \<open>a non-nil \<^verbatim>\<open>*App\<close> handle\<close>

type_synonym environ = "(string \<times> string) list"
  \<comment> \<open>the process environment as key/value pairs, in the order of \<^verbatim>\<open>os.Environ()\<close>\<close>

text \<open>
  The two fields of \<^verbatim>\<open>config.Options\<close> that lib.go reads. \<^verbatim>\<open>Progress\<close> is a \<^verbatim>\<open>*bool\<close>
  (the code compares it with \<^verbatim>\<open>nil\<close> and dereferences it). The types are declared in
  \<^verbatim>\<open>internal/config\<close>; \<^verbatim>\<open>cfg\<close> is a pointer and \<^verbatim>\<open>cfg.Options\<close> is taken as one too, so
  each may be nil (\<open>None\<close>). A struct-valued \<^verbatim>\<open>Options\<close> is the case where it is always
  \<open>Some\<close>.
\<close>

record Options =
  DataDirectory :: string
  Progress :: "bool option"

record Config =
  Options :: "Options option"

record world =
  stderr_is_terminal :: bool
    \<comment> \<open>\<^verbatim>\<open>term.IsTerminal(os.Stderr.Fd())\<close>\<close>
  process_env :: environ
  db_Connect :: "string \<Rightarrow> error + conn"
    \<comment> \<open>\<^verbatim>\<open>db.Connect(ctx, dataDir)\<close>\<close>
  app_New :: "conn \<Rightarrow> error + app"
    \<comment> \<open>\<^verbatim>\<open>app.New(ctx, conn, cfg)\<close>\<close>
  program_Run :: "error option"
    \<comment> \<open>the error of \<^verbatim>\<open>program.Run()\<close>\<close>

datatype event =
    Stderr_write string
      \<comment> \<open>the bytes one \<^verbatim>\<open>fmt.Fprint\<close>/\<^verbatim>\<open>fmt.Fprintf\<close> call sends to \<^verbatim>\<open>os.Stderr\<close>\<close>
  | Connect_call string
  | App_New_call conn
  | DefaultCommon_call app
  | UI_New_call
  | NewProgram_call environ
  | Go_Subscribe app
      \<comment> \<open>\<^verbatim>\<open>go appInstance.Subscribe(program)\<close>: the goroutine is started\<close>
  | Program_Run_call
  | Slog_Error string error
      \<comment> \<open>\<^verbatim>\<open>slog.Error(msg, "error", err)\<close>\<close>
  | Conn_Close conn
      \<comment> \<open>\<^verbatim>\<open>conn.Close()\<close>; lib.go has no such call, the event is there to speak about it\<close>

datatype 'a outcome = Returned 'a | Panicked

type_synonym trace = "event list"

subsection \<open>Library functions the file calls\<close>

text \<open>
  \<^verbatim>\<open>os.LookupEnv\<close> and \<^verbatim>\<open>os.Getenv\<close>: the first entry for a key wins, an empty key is
  never found, and \<^verbatim>\<open>Getenv\<close> gives the empty string for a missing variable.
\<close>

definition LookupEnv :: "environ \<Rightarrow> string \<Rightarrow> string option" where
  "LookupEnv env key = (if key = [] then None else map_of env key)"

definition Getenv :: "environ \<Rightarrow> string \<Rightarrow> string" where
  "Getenv env key = (case LookupEnv env key of None \<Rightarrow> [] | Some v \<Rightarrow> v)"

text \<open>
  \<^verbatim>\<open>strings.ToLower\<close> on the bytes of a string: an ASCII upper-case letter gets
  \<^verbatim>\<open>'a' - 'A'\<close> added, every other byte stays. (On text that is not ASCII Go lowers
  code points: those are sequences of bytes from 0x80 on, their images too, apart from
  U+0130 and U+212A, which become \<^verbatim>\<open>i\<close> and \<^verbatim>\<open>k\<close>.)
\<close>

definition lower_byte :: "char \<Rightarrow> char" where
  "lower_byte c =
     (let n = (of_char c :: nat) in if 65 \<le> n \<and> n \<le> 90 then char_of (n + 32) else c)"

definition ToLower :: "string \<Rightarrow> string" where
  "ToLower s = map lower_byte s"

text \<open>\<^verbatim>\<open>strings.Contains(s, substr)\<close>: \<^verbatim>\<open>substr\<close> starts at some index of \<^verbatim>\<open>s\<close>.\<close>

fun Contains :: "string \<Rightarrow> string \<Rightarrow> bool" where
  "Contains [] substr = (substr = [])"
| "Contains (c # s) substr = (prefix substr (c # s) \<or> Contains s substr)"

subsection \<open>supportsProgressBar\<close>

definition supportsProgressBar :: "world \<Rightarrow> bool" where
  "supportsProgressBar w =
     (if \<not> stderr_is_terminal w then False
      else
        let termProg = Getenv (process_env w) ''TERM_PROGRAM'';
            isWindowsTerminal = (LookupEnv (process_env w) ''WT_SESSION'' \<noteq> None)
        in isWindowsTerminal \<or> Contains (ToLower termProg) ''ghostty'')"

subsection \<open>Writing to the terminal\<close>

text \<open>
  The two escape sequences of \<^verbatim>\<open>charmbracelet/x/ansi\<close>: \<^verbatim>\<open>OSC 9 ; 4 ; 3 BEL\<close> shows the
  indeterminate progress bar, \<^verbatim>\<open>OSC 9 ; 4 ; 0 BEL\<close> resets it.
\<close>

definition SetIndeterminateProgressBar :: string where
  "SetIndeterminateProgressBar = CHR 0x1B # '']9;4;3'' @ [CHR 0x07]"

definition ResetProgressBar :: string where
  "ResetProgressBar = CHR 0x1B # '']9;4;0'' @ [CHR 0x07]"

text \<open>
  \<^verbatim>\<open>fmt.Fprint(w, s)\<close> with one string operand writes \<^verbatim>\<open>s\<close>. \<^verbatim>\<open>fmt.Fprintf(w, format)\<close>
  with no operand copies the format up to a \<^verbatim>\<open>%\<close>; then \<^verbatim>\<open>%%\<close> is a percent sign, a
  verb has no operand (\<^verbatim>\<open>%!v(MISSING)\<close>) and a \<^verbatim>\<open>%\<close> at the end has no verb. Flags and
  widths between \<^verbatim>\<open>%\<close> and the verb are not modelled: the format lib.go passes has no
  \<^verbatim>\<open>%\<close> in it.
\<close>

definition Sprint :: "string \<Rightarrow> string" where
  "Sprint s = s"

fun Sprintf :: "string \<Rightarrow> string" where
  "Sprintf [] = []"
| "Sprintf [c] = (if c = CHR ''%'' then ''%!(NOVERB)'' else [c])"
| "Sprintf (c # v # rest) =
     (if c \<noteq> CHR ''%'' then c # Sprintf (v # rest)
      else if v = CHR ''%'' then CHR ''%'' # Sprintf rest
      else ''%!'' @ [v] @ ''(MISSING)'' @ Sprintf rest)"

subsection \<open>RunTUI\<close>

definition RunTUI :: "world \<Rightarrow> app \<Rightarrow> error option outcome \<times> trace" where
  "RunTUI w appInstance =
     (let env = process_env w;
          t = [DefaultCommon_call appInstance, UI_New_call, NewProgram_call env,
               Go_Subscribe appInstance, Program_Run_call]
      in case program_Run w of
           Some err \<Rightarrow> (Returned (Some err), t @ [Slog_Error ''TUI run error'' err])
         | None \<Rightarrow> (Returned None, t))"

subsection \<open>RunWithProgressBar\<close>

text \<open>
  A \<^verbatim>\<open>defer\<close> statement registers a call; the registered calls run last in, first out
  when the function returns, whatever it returns. A deferred call is given by the events
  it emits. Dereferencing a nil \<^verbatim>\<open>cfg\<close> or \<^verbatim>\<open>cfg.Options\<close> panics, before anything is
  written or deferred. The parameter \<^verbatim>\<open>cwd\<close> is not used by the body.
\<close>

definition run_deferred :: "trace list \<Rightarrow> trace" where
  "run_deferred ds = concat (rev ds)"

definition RunWithProgressBar ::
  "world \<Rightarrow> Config option \<Rightarrow> string \<Rightarrow> error option outcome \<times> trace" where
  "RunWithProgressBar w cfg cwd =
     (let supportsProgress = supportsProgressBar w in
      case cfg of
        None \<Rightarrow> (Panicked, [])
      | Some c \<Rightarrow>
          (case Options c of
             None \<Rightarrow> (Panicked, [])
           | Some opts \<Rightarrow>
               let progressEnabled = (case Progress opts of None \<Rightarrow> True | Some b \<Rightarrow> b);
                   overlay = (progressEnabled \<and> supportsProgress);
                   t0 = (if overlay
                         then [Stderr_write (Sprint SetIndeterminateProgressBar)] else []);
                   deferred = (if overlay
                               then [[Stderr_write (Sprintf ResetProgressBar)]] else []);
                   (r, t1) =
                     (case db_Connect w (DataDirectory opts) of
                        Inl err \<Rightarrow> (Returned (Some err), [Connect_call (DataDirectory opts)])
                      | Inr conn \<Rightarrow>
                          (case app_New w conn of
                             Inl err \<Rightarrow>
                               (Returned (Some err),
                                [Connect_call (DataDirectory opts), App_New_call conn])
                           | Inr appInstance \<Rightarrow>
                               let env = process_env w;
                                   t = [Connect_call (DataDirectory opts), App_New_call conn,
                                        DefaultCommon_call appInstance, UI_New_call,
                                        NewProgram_call env, Go_Subscribe appInstance,
                                        Program_Run_call]
                               in (case program_Run w of
                                     Some err \<Rightarrow> (Returned (Some err), t)
                                   | None \<Rightarrow> (Returned None, t))))
               in (r, t0 @ t1 @ run_deferred deferred)))"

subsection \<open>Shutdown\<close>

text \<open>
  Modelled from the spec: the method \<^verbatim>\<open>App.Shutdown\<close> of \<^verbatim>\<open>internal/app\<close>, which
  \<^verbatim>\<open>Shutdown\<close> of lib.go calls and which is not among the sources. The spec gives it as
  "idempotent, releases backend resources, safe to call after or instead of a UI run": the
  state of an application instance is the list of backend resources it holds, and the
  method releases them all and returns.
\<close>

record app_state =
  held_resources :: "nat list"

definition app_Shutdown :: "app_state \<Rightarrow> unit outcome \<times> app_state" where
  "app_Shutdown a = (Returned (), a\<lparr>held_resources := []\<rparr>)"

definition Shutdown :: "app_state \<Rightarrow> unit outcome \<times> app_state" where
  "Shutdown appInstance = app_Shutdown appInstance"

subsection \<open>The words of the specification\<close>

text \<open>
  "Contains the substring in any case": some stretch of the text equals the pattern
  letter by letter, each letter in lower or in upper case. The pattern is given in
  lower case.
\<close>

definition upper_byte :: "char \<Rightarrow> char" where
  "upper_byte c =
     (let n = (of_char c :: nat) in if 97 \<le> n \<and> n \<le> 122 then char_of (n - 32) else c)"

definition same_letter :: "char \<Rightarrow> char \<Rightarrow> bool" where
  "same_letter c p = (c = p \<or> c = upper_byte p)"

definition contains_in_any_case :: "string \<Rightarrow> string \<Rightarrow> bool" where
  "contains_in_any_case s pat = (\<exists>u. sublist u s \<and> list_all2 same_letter u pat)"

text \<open>The overlay sequences among the events of a run.\<close>

definition enter_event :: event where
  "enter_event = Stderr_write SetIndeterminateProgressBar"

definition reset_event :: event where
  "reset_event = Stderr_write ResetProgressBar"

text \<open>The events that construct, feed or run a UI program.\<close>

fun ui_event :: "event \<Rightarrow> bool" where
  "ui_event (DefaultCommon_call a) = True"
| "ui_event UI_New_call = True"
| "ui_event (NewProgram_call env) = True"
| "ui_event (Go_Subscribe a) = True"
| "ui_event Program_Run_call = True"
| "ui_event e = False"

subsection \<open>Example inputs\<close>

text \<open>
  A terminal inside Ghostty where storage, application and UI all succeed, and a
  configuration that leaves the progress flag unset; then the same world with a storage
  that cannot be opened, with an application that cannot be built, and with a UI loop
  that fails.
\<close>

definition world0 :: world where
  "world0 =
     \<lparr>stderr_is_terminal = True,
      process_env = [(''HOME'', ''/root''), (''TERM_PROGRAM'', ''xterm-GhoSTTy'')],
      db_Connect = (\<lambda>dataDir. Inr 1),
      app_New = (\<lambda>conn. Inr 2),
      program_Run = None\<rparr>"

definition world_connect_fails :: world where
  "world_connect_fails = world0\<lparr>db_Connect := (\<lambda>dataDir. Inl ''no storage'')\<rparr>"

definition world_app_fails :: world where
  "world_app_fails = world0\<lparr>app_New := (\<lambda>conn. Inl ''init failed'')\<rparr>"

definition world_ui_fails :: world where
  "world_ui_fails = world0\<lparr>program_Run := Some ''ui crashed''\<rparr>"

definition options0 :: Options where
  "options0 = \<lparr>DataDirectory = ''/work/.crush'', Progress = None\<rparr>"

definition cfg0 :: "Config option" where
  "cfg0 = Some \<lparr>Options = Some options0\<rparr>"

section \<open>Capability detection\<close>

subsection \<open>Lower-casing and substring search\<close>

lemma of_char_lower_byte:
  "(of_char (lower_byte c) :: nat) =
     (if 65 \<le> (of_char c :: nat) \<and> (of_char c :: nat) \<le> 90 then of_char c + 32 else of_char c)"
  by (simp add: lower_byte_def Let_def)

lemma of_char_upper_byte:
  "(of_char (upper_byte p) :: nat) =
     (if 97 \<le> (of_char p :: nat) \<and> (of_char p :: nat) \<le> 122 then of_char p - 32 else of_char p)"
  by (auto simp add: upper_byte_def Let_def intro: mod_less)

lemma lower_byte_eq_iff:
  assumes "97 \<le> (of_char p :: nat)" and "(of_char p :: nat) \<le> 122"
  shows "lower_byte c = p \<longleftrightarrow> same_letter c p"
proof -
  have "lower_byte c = p \<longleftrightarrow> (of_char (lower_byte c) :: nat) = of_char p"
    by simp
  also have "\<dots> \<longleftrightarrow> (of_char c :: nat) = of_char p \<or> (of_char c :: nat) = of_char (upper_byte p)"
    using assms unfolding of_char_lower_byte of_char_upper_byte by auto
  also have "\<dots> \<longleftrightarrow> same_letter c p"
    by (simp add: same_letter_def)
  finally show ?thesis .
qed

lemma Contains_sublist: "Contains s substr \<longleftrightarrow> sublist substr s"
  by (induction s) (auto simp: sublist_Cons_right)

lemma sublist_map_iff:
  "sublist pat (map f s) \<longleftrightarrow> (\<exists>u. sublist u s \<and> map f u = pat)"
proof
  assume "sublist pat (map f s)"
  then obtain ps ss where eq: "map f s = ps @ pat @ ss"
    by (auto simp: sublist_def)
  let ?u = "take (length pat) (drop (length ps) s)"
  have "map f ?u = take (length pat) (drop (length ps) (map f s))"
    by (simp add: take_map drop_map)
  then have "map f ?u = pat"
    by (simp add: eq)
  moreover have "sublist ?u s"
    by (rule sublist_order.order_trans [OF sublist_take sublist_drop])
  ultimately show "\<exists>u. sublist u s \<and> map f u = pat"
    by blast
next
  assume "\<exists>u. sublist u s \<and> map f u = pat"
  then show "sublist pat (map f s)"
    by (auto intro: map_mono_sublist)
qed

lemma map_lower_eq_iff:
  assumes "\<forall>p \<in> set pat. 97 \<le> (of_char p :: nat) \<and> (of_char p :: nat) \<le> 122"
  shows "map lower_byte u = pat \<longleftrightarrow> list_all2 same_letter u pat"
  using assms
proof (induction u arbitrary: pat)
  case Nil
  then show ?case by auto
next
  case (Cons c u)
  then show ?case by (cases pat) (auto simp: lower_byte_eq_iff)
qed

lemma Contains_ToLower:
  assumes "\<forall>p \<in> set pat. 97 \<le> (of_char p :: nat) \<and> (of_char p :: nat) \<le> 122"
  shows "Contains (ToLower s) pat \<longleftrightarrow> contains_in_any_case s pat"
  using map_lower_eq_iff [OF assms]
  by (simp add: Contains_sublist ToLower_def sublist_map_iff contains_in_any_case_def)

lemma Contains_ToLower_ghostty:
  "Contains (ToLower s) ''ghostty'' \<longleftrightarrow> contains_in_any_case s ''ghostty''"
  by (rule Contains_ToLower) simp

lemma not_contains_in_any_case_Nil: "\<not> contains_in_any_case [] ''ghostty''"
  by (simp add: contains_in_any_case_def)

lemma Getenv_contains:
  "contains_in_any_case (Getenv env key) ''ghostty'' \<longleftrightarrow>
     (\<exists>v. LookupEnv env key = Some v \<and> contains_in_any_case v ''ghostty'')"
  by (cases "LookupEnv env key") (simp_all add: Getenv_def not_contains_in_any_case_Nil)

subsection \<open>What supportsProgressBar decides\<close>

text \<open>
  C4. \<open>supportsProgressBar\<close> is false whenever stderr is not a terminal, whatever the
  environment holds. When stderr is a terminal it is true exactly if the variable
  \<^verbatim>\<open>TERM_PROGRAM\<close> is set to a text that contains \<^verbatim>\<open>ghostty\<close> in any letter case, or the
  variable \<^verbatim>\<open>WT_SESSION\<close> is present with any value; with neither it is false.
\<close>

theorem supportsProgressBar_decision:
  "supportsProgressBar w \<longleftrightarrow>
     stderr_is_terminal w \<and>
     ((\<exists>v. LookupEnv (process_env w) ''TERM_PROGRAM'' = Some v
            \<and> contains_in_any_case v ''ghostty'')
      \<or> (\<exists>v. LookupEnv (process_env w) ''WT_SESSION'' = Some v))"
  unfolding supportsProgressBar_def Let_def Contains_ToLower_ghostty Getenv_contains
  by auto

theorem supportsProgressBar_decision_witness:
  "supportsProgressBar world0
   \<and> contains_in_any_case ''xterm-GhoSTTy'' ''ghostty''
   \<and> \<not> supportsProgressBar (world0\<lparr>stderr_is_terminal := False\<rparr>)
   \<and> supportsProgressBar (world0\<lparr>process_env := [(''WT_SESSION'', [])]\<rparr>)
   \<and> \<not> supportsProgressBar (world0\<lparr>process_env := [(''TERM_PROGRAM'', ''xterm'')]\<rparr>)"
proof -
  have run: "supportsProgressBar world0"
    by code_simp
  have "contains_in_any_case ''xterm-GhoSTTy'' ''ghostty''"
    using run supportsProgressBar_decision [of world0]
    by (simp add: world0_def LookupEnv_def)
  moreover have "\<not> supportsProgressBar (world0\<lparr>stderr_is_terminal := False\<rparr>)"
    using supportsProgressBar_decision [of "world0\<lparr>stderr_is_terminal := False\<rparr>"]
    by simp
  moreover have "supportsProgressBar (world0\<lparr>process_env := [(''WT_SESSION'', [])]\<rparr>)"
    using supportsProgressBar_decision [of "world0\<lparr>process_env := [(''WT_SESSION'', [])]\<rparr>"]
    by (simp add: world0_def LookupEnv_def)
  moreover have
    "\<not> supportsProgressBar (world0\<lparr>process_env := [(''TERM_PROGRAM'', ''xterm'')]\<rparr>)"
    by code_simp
  ultimately show ?thesis
    using run by simp
qed

text \<open>
  C9. The result of \<open>supportsProgressBar\<close> is a function of three inputs only: whether
  stderr is a terminal, and what \<^verbatim>\<open>TERM_PROGRAM\<close> and \<^verbatim>\<open>WT_SESSION\<close> are set to. Two
  processes that agree on these get the same answer, whatever else their environments
  and collaborators hold. The source function only queries (the terminal check, the two
  environment reads, two string functions), so it is embedded as a function from the
  world to a truth value: it has no trace to add an event to.
\<close>

theorem supportsProgressBar_noninterference:
  assumes "stderr_is_terminal w1 = stderr_is_terminal w2"
    and "LookupEnv (process_env w1) ''TERM_PROGRAM'' = LookupEnv (process_env w2) ''TERM_PROGRAM''"
    and "LookupEnv (process_env w1) ''WT_SESSION'' = LookupEnv (process_env w2) ''WT_SESSION''"
  shows "supportsProgressBar w1 = supportsProgressBar w2"
  using assms by (simp add: supportsProgressBar_def Getenv_def)

theorem supportsProgressBar_noninterference_witness:
  "supportsProgressBar world0 =
   supportsProgressBar
     \<lparr>stderr_is_terminal = True,
      process_env = [(''SHELL'', ''/bin/sh''), (''TERM_PROGRAM'', ''xterm-GhoSTTy''),
                     (''TERM_PROGRAM'', ''other''), (''LANG'', ''C'')],
      db_Connect = (\<lambda>dataDir. Inl ''no storage''),
      app_New = (\<lambda>conn. Inl ''no app''),
      program_Run = Some ''no ui''\<rparr>"
  by (rule supportsProgressBar_noninterference) (simp_all add: world0_def LookupEnv_def)

section \<open>The progress overlay around a run\<close>

subsection \<open>Facts about the events\<close>

lemma Sprintf_ResetProgressBar: "Sprintf ResetProgressBar = ResetProgressBar"
  by (simp add: ResetProgressBar_def)

lemma enter_neq_reset: "enter_event \<noteq> reset_event"
  by (simp add: enter_event_def reset_event_def SetIndeterminateProgressBar_def
      ResetProgressBar_def)

lemma enter_event_simps [simp]:
  "enter_event \<noteq> Connect_call d" "enter_event \<noteq> App_New_call c"
  "enter_event \<noteq> DefaultCommon_call a" "enter_event \<noteq> UI_New_call"
  "enter_event \<noteq> NewProgram_call env" "enter_event \<noteq> Go_Subscribe a"
  "enter_event \<noteq> Program_Run_call" "enter_event \<noteq> Slog_Error m e"
  "enter_event \<noteq> Conn_Close c"
  by (simp_all add: enter_event_def)

lemma reset_event_simps [simp]:
  "reset_event \<noteq> Connect_call d" "reset_event \<noteq> App_New_call c"
  "reset_event \<noteq> DefaultCommon_call a" "reset_event \<noteq> UI_New_call"
  "reset_event \<noteq> NewProgram_call env" "reset_event \<noteq> Go_Subscribe a"
  "reset_event \<noteq> Program_Run_call" "reset_event \<noteq> Slog_Error m e"
  "reset_event \<noteq> Conn_Close c"
  by (simp_all add: reset_event_def)

lemmas overlay_event_simps_sym [simp] =
  enter_event_simps [symmetric] reset_event_simps [symmetric]

lemma ui_event_overlay [simp]: "\<not> ui_event enter_event" "\<not> ui_event reset_event"
  by (simp_all add: enter_event_def reset_event_def)

lemmas run_defs = RunWithProgressBar_def Let_def run_deferred_def Sprint_def
  Sprintf_ResetProgressBar enter_event_def [symmetric] reset_event_def [symmetric]

subsection \<open>Entering and leaving the overlay\<close>

text \<open>
  C1. Whenever a run of \<open>RunWithProgressBar\<close> writes the sequence that enters the overlay,
  it returns (no panic), the enter sequence is the first event, the reset sequence is the
  last event before the return and is written exactly once. The world is arbitrary, so
  this holds on each return path: the connect fails, the application cannot be built,
  the UI loop fails, the UI exits normally.
\<close>

theorem overlay_reset_exactly_once:
  assumes "enter_event \<in> set (snd (RunWithProgressBar w cfg cwd))"
  shows "count_list (snd (RunWithProgressBar w cfg cwd)) reset_event = 1
         \<and> (\<exists>r mid. RunWithProgressBar w cfg cwd
                       = (Returned r, enter_event # mid @ [reset_event])
                     \<and> enter_event \<notin> set mid \<and> reset_event \<notin> set mid)"
  using assms enter_neq_reset
  by (auto simp: run_defs split: option.splits sum.splits if_splits)

theorem overlay_reset_exactly_once_witness:
  "count_list (snd (RunWithProgressBar world0 cfg0 ''/work'')) reset_event = 1
   \<and> count_list (snd (RunWithProgressBar
        world_connect_fails cfg0 ''/work'')) reset_event = 1
   \<and> count_list (snd (RunWithProgressBar
        world_app_fails cfg0 ''/work'')) reset_event = 1
   \<and> count_list (snd (RunWithProgressBar
        world_ui_fails cfg0 ''/work'')) reset_event = 1"
proof -
  have 1: "enter_event \<in> set (snd (RunWithProgressBar world0 cfg0 ''/work''))"
    by code_simp
  have 2: "enter_event \<in> set (snd (RunWithProgressBar
             world_connect_fails cfg0 ''/work''))"
    by code_simp
  have 3: "enter_event \<in> set (snd (RunWithProgressBar
             world_app_fails cfg0 ''/work''))"
    by code_simp
  have 4: "enter_event \<in> set (snd (RunWithProgressBar
             world_ui_fails cfg0 ''/work''))"
    by code_simp
  show ?thesis
    using overlay_reset_exactly_once [OF 1] overlay_reset_exactly_once [OF 2]
      overlay_reset_exactly_once [OF 3] overlay_reset_exactly_once [OF 4]
    by blast
qed

text \<open>
  C3. The enter sequence is written exactly if the configuration is there, its progress
  flag is unset or true, and \<open>supportsProgressBar\<close> holds. With the flag explicitly false
  nothing at all is written to stderr, whatever the terminal supports.
\<close>

theorem overlay_enter_iff:
  "(enter_event \<in> set (snd (RunWithProgressBar w cfg cwd)) \<longleftrightarrow>
      (\<exists>c opts. cfg = Some c \<and> Options c = Some opts
         \<and> (Progress opts = None \<or> Progress opts = Some True))
      \<and> supportsProgressBar w)
   \<and> ((\<exists>c opts. cfg = Some c \<and> Options c = Some opts \<and> Progress opts = Some False)
        \<longrightarrow> (\<forall>s. Stderr_write s \<notin> set (snd (RunWithProgressBar w cfg cwd))))"
  by (auto simp: run_defs split: option.splits sum.splits if_splits)

theorem overlay_enter_iff_witness:
  "enter_event \<in> set (snd (RunWithProgressBar world0 cfg0 ''/work''))
   \<and> (\<forall>s. Stderr_write s \<notin> set (snd (RunWithProgressBar world0
          (Some \<lparr>Options = Some (options0\<lparr>Progress := Some False\<rparr>)\<rparr>) ''/work'')))
   \<and> enter_event \<notin> set (snd (RunWithProgressBar
          (world0\<lparr>stderr_is_terminal := False\<rparr>) cfg0 ''/work''))"
proof -
  have s: "supportsProgressBar world0"
    by code_simp
  have n: "\<not> supportsProgressBar (world0\<lparr>stderr_is_terminal := False\<rparr>)"
    by (simp add: supportsProgressBar_def)
  show ?thesis
    using s n overlay_enter_iff [of world0 cfg0 "''/work''"]
      overlay_enter_iff [of world0
        "Some \<lparr>Options = Some (options0\<lparr>Progress := Some False\<rparr>)\<rparr>" "''/work''"]
      overlay_enter_iff [of "world0\<lparr>stderr_is_terminal := False\<rparr>" cfg0 "''/work''"]
    by (simp add: cfg0_def options0_def)
qed

section \<open>Failures before and inside the UI loop\<close>

subsection \<open>The storage connection fails\<close>

text \<open>
  C7. When \<^verbatim>\<open>db.Connect\<close> fails, \<open>RunWithProgressBar\<close> returns that error. No UI program
  is built, no \<^verbatim>\<open>Subscribe\<close> goroutine is started and the blocking run is not called: the
  connect is the only call to a collaborator. If the enter sequence was written before
  the connect, the reset sequence follows the connect and is the last event.
\<close>

theorem connect_failure_short_circuits:
  assumes "cfg = Some c" and "Options c = Some opts"
    and "db_Connect w (DataDirectory opts) = Inl err"
  shows "fst (RunWithProgressBar w cfg cwd) = Returned (Some err)
         \<and> (\<forall>e \<in> set (snd (RunWithProgressBar w cfg cwd)). \<not> ui_event e)
         \<and> (enter_event \<in> set (snd (RunWithProgressBar w cfg cwd)) \<longrightarrow>
              snd (RunWithProgressBar w cfg cwd)
                = [enter_event, Connect_call (DataDirectory opts), reset_event])
         \<and> (enter_event \<notin> set (snd (RunWithProgressBar w cfg cwd)) \<longrightarrow>
              snd (RunWithProgressBar w cfg cwd) = [Connect_call (DataDirectory opts)])"
  using assms
  by (auto simp: run_defs split: option.splits sum.splits if_splits)

theorem connect_failure_short_circuits_witness:
  "RunWithProgressBar world_connect_fails cfg0 ''/work''
     = (Returned (Some ''no storage''),
        [enter_event, Connect_call ''/work/.crush'', reset_event])"
proof -
  let ?w = world_connect_fails
  have c: "cfg0 = Some \<lparr>Options = Some options0\<rparr>"
    by (simp add: cfg0_def)
  have o: "Options \<lparr>Options = Some options0\<rparr> = Some options0"
    by simp
  have f: "db_Connect ?w (DataDirectory options0) = Inl ''no storage''"
    by (simp add: world_connect_fails_def)
  have e: "enter_event \<in> set (snd (RunWithProgressBar ?w cfg0 ''/work''))"
    by code_simp
  show ?thesis
    using e connect_failure_short_circuits [OF c o f, of "''/work''"]
    by (simp add: options0_def prod_eq_iff)
qed

subsection \<open>Construction failures and the connection\<close>

text \<open>
  \<open>RunWithProgressBar\<close> never closes a connection and never writes a log record: neither
  call occurs in its body.
\<close>

lemma RunWithProgressBar_no_Conn_Close:
  "Conn_Close conn \<notin> set (snd (RunWithProgressBar w cfg cwd))"
  by (auto simp: run_defs split: option.splits sum.splits if_splits)

lemma RunWithProgressBar_no_Slog_Error:
  "Slog_Error msg err \<notin> set (snd (RunWithProgressBar w cfg cwd))"
  by (auto simp: run_defs split: option.splits sum.splits if_splits)

text \<open>
  C6, as the specification has it: a construction failure short-circuits and releases
  what was acquired, so that a failing \<^verbatim>\<open>app.New\<close> is followed by the release of the
  connection \<^verbatim>\<open>db.Connect\<close> opened. The run below opens connection 1, fails to build the
  application and returns; between the enter and the reset sequence its events are the
  two calls, and no event closes connection 1.
\<close>

theorem app_failure_leaves_connection_open:
  "db_Connect world_app_fails ''/work/.crush'' = Inr 1
   \<and> app_New world_app_fails 1 = Inl ''init failed''
   \<and> RunWithProgressBar world_app_fails cfg0 ''/work''
       = (Returned (Some ''init failed''),
          [enter_event, Connect_call ''/work/.crush'', App_New_call 1, reset_event])
   \<and> Conn_Close 1 \<notin> set (snd (RunWithProgressBar world_app_fails cfg0 ''/work''))"
proof -
  have s: "supportsProgressBar world_app_fails"
    by code_simp
  have "RunWithProgressBar world_app_fails cfg0 ''/work''
       = (Returned (Some ''init failed''),
          [enter_event, Connect_call ''/work/.crush'', App_New_call 1, reset_event])"
    using s by (simp add: run_defs cfg0_def options0_def world_app_fails_def world0_def)
  then show ?thesis
    by (simp add: world_app_fails_def world0_def)
qed

text \<open>
  C6, amended. Every construction failure (the connect fails, or the connect succeeds
  and \<^verbatim>\<open>app.New\<close> fails) makes \<open>RunWithProgressBar\<close> return the error before any UI program
  is built, fed or run. The function releases nothing itself: no connection is closed,
  so after a failing \<^verbatim>\<open>app.New\<close> the connection is still open.
\<close>

theorem construction_failure_short_circuits:
  assumes "cfg = Some c" and "Options c = Some opts"
    and "db_Connect w (DataDirectory opts) = Inl err
         \<or> (\<exists>conn. db_Connect w (DataDirectory opts) = Inr conn \<and> app_New w conn = Inl err)"
  shows "fst (RunWithProgressBar w cfg cwd) = Returned (Some err)
         \<and> (\<forall>e \<in> set (snd (RunWithProgressBar w cfg cwd)). \<not> ui_event e)
         \<and> (\<forall>conn. Conn_Close conn \<notin> set (snd (RunWithProgressBar w cfg cwd)))"
  using assms
  by (auto simp: run_defs split: option.splits sum.splits if_splits)

theorem construction_failure_short_circuits_witness:
  "fst (RunWithProgressBar world_app_fails cfg0 ''/work'') = Returned (Some ''init failed'')
   \<and> UI_New_call \<notin> set (snd (RunWithProgressBar world_app_fails cfg0 ''/work''))
   \<and> Go_Subscribe 2 \<notin> set (snd (RunWithProgressBar world_app_fails cfg0 ''/work''))
   \<and> Program_Run_call \<notin> set (snd (RunWithProgressBar world_app_fails cfg0 ''/work''))
   \<and> Conn_Close 1 \<notin> set (snd (RunWithProgressBar world_app_fails cfg0 ''/work''))"
proof -
  let ?w = world_app_fails
  have c: "cfg0 = Some \<lparr>Options = Some options0\<rparr>"
    by (simp add: cfg0_def)
  have o: "Options \<lparr>Options = Some options0\<rparr> = Some options0"
    by simp
  have f: "db_Connect ?w (DataDirectory options0) = Inl ''init failed''
           \<or> (\<exists>conn. db_Connect ?w (DataDirectory options0) = Inr conn
                 \<and> app_New ?w conn = Inl ''init failed'')"
    by (simp add: world_app_fails_def world0_def)
  show ?thesis
    using construction_failure_short_circuits [OF c o f, of "''/work''"]
    by auto
qed

text \<open>
  C10. On every path of \<open>RunWithProgressBar\<close> the connection it obtained is not closed
  before the function returns. The function hands back an outcome only: a panic, success,
  or an error, and an error is the one a collaborator gave; the handle is not part of it.
\<close>

theorem connection_never_closed_nor_returned:
  "Conn_Close conn \<notin> set (snd (RunWithProgressBar w cfg cwd))
   \<and> (fst (RunWithProgressBar w cfg cwd) = Panicked
      \<or> fst (RunWithProgressBar w cfg cwd) = Returned None
      \<or> (\<exists>err. fst (RunWithProgressBar w cfg cwd) = Returned (Some err)
            \<and> ((\<exists>dataDir. db_Connect w dataDir = Inl err)
               \<or> (\<exists>c. app_New w c = Inl err)
               \<or> program_Run w = Some err)))"
proof
  show "Conn_Close conn \<notin> set (snd (RunWithProgressBar w cfg cwd))"
    by (rule RunWithProgressBar_no_Conn_Close)
next
  show "fst (RunWithProgressBar w cfg cwd) = Panicked
      \<or> fst (RunWithProgressBar w cfg cwd) = Returned None
      \<or> (\<exists>err. fst (RunWithProgressBar w cfg cwd) = Returned (Some err)
            \<and> ((\<exists>dataDir. db_Connect w dataDir = Inl err)
               \<or> (\<exists>c. app_New w c = Inl err)
               \<or> program_Run w = Some err))"
    by (auto simp: run_defs split: option.splits sum.splits if_splits)
qed

theorem connection_never_closed_nor_returned_witness:
  "Conn_Close 1 \<notin> set (snd (RunWithProgressBar world0 cfg0 ''/work''))
   \<and> Conn_Close 1 \<notin> set (snd (RunWithProgressBar
        world_app_fails cfg0 ''/work''))
   \<and> Conn_Close 1 \<notin> set (snd (RunWithProgressBar
        world_ui_fails cfg0 ''/work''))"
  using connection_never_closed_nor_returned [of 1 world0 cfg0 "''/work''"]
    connection_never_closed_nor_returned
      [of 1 world_app_fails cfg0 "''/work''"]
    connection_never_closed_nor_returned
      [of 1 world_ui_fails cfg0 "''/work''"]
  by blast

subsection \<open>The UI loop fails\<close>

text \<open>
  What \<open>RunTUI\<close> does with the result of the blocking run: an error is logged once, after
  the run, and returned unchanged; without an error the function returns success and
  logs nothing. It never panics.
\<close>

lemma RunTUI_error:
  "program_Run w = Some err \<Longrightarrow>
     RunTUI w a = (Returned (Some err),
       [DefaultCommon_call a, UI_New_call, NewProgram_call (process_env w), Go_Subscribe a,
        Program_Run_call, Slog_Error ''TUI run error'' err])"
  by (simp add: RunTUI_def)

lemma RunTUI_success:
  "program_Run w = None \<Longrightarrow>
     RunTUI w a = (Returned None,
       [DefaultCommon_call a, UI_New_call, NewProgram_call (process_env w), Go_Subscribe a,
        Program_Run_call])"
  by (simp add: RunTUI_def)

lemma RunWithProgressBar_propagates_run_result:
  "cfg = Some c \<Longrightarrow> Options c = Some opts \<Longrightarrow>
   db_Connect w (DataDirectory opts) = Inr conn \<Longrightarrow> app_New w conn = Inr a \<Longrightarrow>
     fst (RunWithProgressBar w cfg cwd) = Returned (program_Run w)"
  by (auto simp: run_defs split: option.splits sum.splits if_splits)

text \<open>
  C5. The claim asks both functions to log a UI-loop failure and to return it. In the
  world below the blocking run fails with \<^verbatim>\<open>ui crashed\<close>. \<open>RunTUI\<close> logs the failure and
  returns it. \<open>RunWithProgressBar\<close> returns it too, and its events hold no log record: the
  \<^verbatim>\<open>slog.Error\<close> call of \<open>RunTUI\<close> is missing from the same three lines of
  \<open>RunWithProgressBar\<close>.
\<close>

theorem ui_failure_not_logged_by_RunWithProgressBar:
  "program_Run world_ui_fails = Some ''ui crashed''
   \<and> RunTUI world_ui_fails 2
     = (Returned (Some ''ui crashed''),
        [DefaultCommon_call 2, UI_New_call,
         NewProgram_call [(''HOME'', ''/root''), (''TERM_PROGRAM'', ''xterm-GhoSTTy'')],
         Go_Subscribe 2, Program_Run_call, Slog_Error ''TUI run error'' ''ui crashed''])
   \<and> RunWithProgressBar world_ui_fails cfg0 ''/work''
     = (Returned (Some ''ui crashed''),
        [enter_event, Connect_call ''/work/.crush'', App_New_call 1,
         DefaultCommon_call 2, UI_New_call,
         NewProgram_call [(''HOME'', ''/root''), (''TERM_PROGRAM'', ''xterm-GhoSTTy'')],
         Go_Subscribe 2, Program_Run_call, reset_event])
   \<and> Slog_Error ''TUI run error'' ''ui crashed''
        \<notin> set (snd (RunWithProgressBar world_ui_fails cfg0 ''/work''))"
proof -
  have s: "supportsProgressBar world_ui_fails"
    by code_simp
  have "RunWithProgressBar world_ui_fails cfg0 ''/work''
     = (Returned (Some ''ui crashed''),
        [enter_event, Connect_call ''/work/.crush'', App_New_call 1,
         DefaultCommon_call 2, UI_New_call,
         NewProgram_call [(''HOME'', ''/root''), (''TERM_PROGRAM'', ''xterm-GhoSTTy'')],
         Go_Subscribe 2, Program_Run_call, reset_event])"
    using s by (simp add: run_defs cfg0_def options0_def world_ui_fails_def world0_def)
  moreover have "RunTUI world_ui_fails 2
     = (Returned (Some ''ui crashed''),
        [DefaultCommon_call 2, UI_New_call,
         NewProgram_call [(''HOME'', ''/root''), (''TERM_PROGRAM'', ''xterm-GhoSTTy'')],
         Go_Subscribe 2, Program_Run_call, Slog_Error ''TUI run error'' ''ui crashed''])"
    by (simp add: RunTUI_def world_ui_fails_def world0_def)
  moreover have "program_Run world_ui_fails = Some ''ui crashed''"
    by (simp add: world_ui_fails_def)
  ultimately show ?thesis
    using RunWithProgressBar_no_Slog_Error by simp
qed

section \<open>Shutdown\<close>

text \<open>
  C8. \<open>Shutdown\<close> on an application instance returns without a panic, in whatever state
  the instance is (before a UI run, after one, after an earlier shutdown). A second call
  returns as well and leaves the state the first call produced as it is.
\<close>

theorem Shutdown_twice:
  "fst (Shutdown a) = Returned ()
   \<and> Shutdown (snd (Shutdown a)) = (Returned (), snd (Shutdown a))
   \<and> held_resources (snd (Shutdown a)) = []"
  by (simp add: Shutdown_def app_Shutdown_def)

end
